theory Spec2Isabelle
  imports Main
begin

section \<open>The capture controller of \<open>src/components/photo-shoot.tsx\<close>\<close>

text \<open>
  The component \<open>PhotoShoot\<close> is a React function component. Its state lives in
  \<open>useState\<close> cells, one \<open>useRef\<close> flag and browser timers. A handler created by a
  render reads the state variables of that render (its closure), while every setter
  acts on the pending state; a setter given a function (\<open>prev => ...\<close>) reads the
  pending state. Every handler below therefore takes two states: \<open>c\<close>, the state the
  closure was rendered from, and \<open>s\<close>, the pending state it updates. A ref is read
  and written through \<open>s\<close>, since \<open>ref.current\<close> is never captured.
\<close>

subsection \<open>Data\<close>

text \<open>\<open>filters\<close>: the object held by \<open>useState(DEFAULT_FILTERS)\<close>, percentages.\<close>

record filter_settings =
  brightness :: int
  contrast :: int
  grayscale :: int
  sepia :: int
  saturate :: int

text \<open>
  \<open>countdown : number | null\<close>. \<open>TIMER_OPTIONS[i]\<close> out of range is \<open>undefined\<close>,
  and \<open>undefined - 1\<close> is \<open>NaN\<close>; both are kept apart from \<open>null\<close>.
\<close>

datatype countdown_val = Null | Num int | Undefined | NaN

text \<open>\<open>selectedTimerIndex\<close>: \<open>(prev + 1) % 0\<close> is \<open>NaN\<close> in JavaScript.\<close>

datatype timer_index = Idx nat | IdxNaN

text \<open>
  The constants imported from \<open>@/constants\<close>. That module is not part of the sources
  at hand, so the constants are parameters of every definition.
\<close>

record config =
  MAX_CAPTURE :: int
  TIMER_OPTIONS :: "int list"
  DEFAULT_TIMER_INDEX :: nat
  DEFAULT_FILTERS :: filter_settings

text \<open>
  What the component reads from outside at the moment of an event: the prop
  \<open>canProceedToLayout\<close>, whether \<open>videoRef.current\<close> and \<open>canvasRef.current\<close> are set,
  whether \<open>canvas.getContext("2d")\<close> returns a context, the data URL that
  \<open>canvas.toDataURL\<close> yields, and the tag name of \<open>document.activeElement\<close>.
\<close>

record env =
  canProceedToLayout :: bool
  videoRef :: bool
  canvasRef :: bool
  ctxAvailable :: bool
  imageData :: string
  activeElementTag :: string

text \<open>
  The state: the prop \<open>capturedImages\<close> (written through \<open>setCapturedImages\<close>), the
  \<open>useState\<close> cells, the ref \<open>hasCapturedRef\<close>, and the timers that are pending:
  \<open>tickTimer\<close> is the one-second timeout of the countdown effect (cleared by the
  effect's cleanup), \<open>autoTimers\<close> the timeouts set by \<open>scheduleNextAutoCapture\<close>
  (never cleared), each with its delay in milliseconds and the \<open>selectedTimer\<close> of
  the closure that set it; they have one delay, so they run in the order they were set.
  \<open>kbAutoMode\<close> and \<open>kbTimerIndex\<close> are the values of \<open>isAutoModeEnabled\<close> and
  \<open>selectedTimerIndex\<close> in the closure of the registered \<open>keydown\<close> listener: the
  dependency list of the keyboard effect names neither of them.
\<close>

record state =
  capturedImages :: "string list"
  filters :: filter_settings
  isMirrored :: bool
  isCameraStarted :: bool
  cameraError :: "string option"
  activeFilters :: "string list"
  isCapturing :: bool
  isAutoModeEnabled :: bool
  isAutoSequenceActive :: bool
  selectedTimerIndex :: timer_index
  countdown :: countdown_val
  hasCapturedRef :: bool
  tickTimer :: bool
  autoTimers :: "(nat \<times> countdown_val) list"
  kbAutoMode :: bool
  kbTimerIndex :: timer_index

text \<open>
  The state of the first render (lines 38-51 and 270). The collection is a prop; the
  parent hands it over empty.
\<close>

definition initial :: "config \<Rightarrow> state" where
  "initial cfg =
     \<lparr> capturedImages = [],
       filters = DEFAULT_FILTERS cfg,
       isMirrored = True,
       isCameraStarted = False,
       cameraError = None,
       activeFilters = [''mirror''],
       isCapturing = False,
       isAutoModeEnabled = False,
       isAutoSequenceActive = False,
       selectedTimerIndex = Idx (DEFAULT_TIMER_INDEX cfg),
       countdown = Null,
       hasCapturedRef = False,
       tickTimer = False,
       autoTimers = [],
       kbAutoMode = False,
       kbTimerIndex = Idx (DEFAULT_TIMER_INDEX cfg) \<rparr>"

subsection \<open>Values derived in a render (lines 55-57 and 138-152)\<close>

definition filterDisabled :: "state \<Rightarrow> bool" where
  "filterDisabled c = (\<not> isCameraStarted c)"

definition isMaxCaptureReached :: "config \<Rightarrow> state \<Rightarrow> bool" where
  "isMaxCaptureReached cfg c = (int (length (capturedImages c)) \<ge> MAX_CAPTURE cfg)"

definition selectedTimer :: "config \<Rightarrow> state \<Rightarrow> countdown_val" where
  "selectedTimer cfg c =
     (case selectedTimerIndex c of
        IdxNaN \<Rightarrow> Undefined
      | Idx i \<Rightarrow> (if i < length (TIMER_OPTIONS cfg) then Num (TIMER_OPTIONS cfg ! i)
                  else Undefined))"

definition undoDisabled :: "state \<Rightarrow> bool" where
  "undoDisabled c =
     (capturedImages c = [] \<or> isAutoSequenceActive c \<or> countdown c \<noteq> Null)"

definition timerDisabled :: "state \<Rightarrow> bool" where
  "timerDisabled c =
     (\<not> isCameraStarted c \<or> isAutoSequenceActive c \<or> countdown c \<noteq> Null)"

definition captureDisabled :: "config \<Rightarrow> env \<Rightarrow> state \<Rightarrow> bool" where
  "captureDisabled cfg e c =
     (\<not> canProceedToLayout e \<and>
      (\<not> isCameraStarted c \<or> isMaxCaptureReached cfg c \<or> isCapturing c))"

definition autoDisabled :: "config \<Rightarrow> state \<Rightarrow> bool" where
  "autoDisabled cfg c =
     (\<not> isCameraStarted c \<or> isMaxCaptureReached cfg c \<or> isCapturing c \<or>
      countdown c \<noteq> Null \<or> isAutoSequenceActive c)"

definition resetDisabled :: "state \<Rightarrow> bool" where
  "resetDisabled c =
     (capturedImages c = [] \<or> isAutoSequenceActive c \<or> countdown c \<noteq> Null)"

subsection \<open>Handlers\<close>

definition cycleTimer :: "config \<Rightarrow> state \<Rightarrow> state \<Rightarrow> state" where
  "cycleTimer cfg c s =
     (if timerDisabled c then s
      else s\<lparr>selectedTimerIndex :=
               (case selectedTimerIndex s of
                  IdxNaN \<Rightarrow> IdxNaN
                | Idx prev \<Rightarrow> (if TIMER_OPTIONS cfg = [] then IdxNaN
                               else Idx ((prev + 1) mod length (TIMER_OPTIONS cfg))))\<rparr>)"

definition stopAutoSequence :: "state \<Rightarrow> state" where
  "stopAutoSequence s = s\<lparr>isAutoSequenceActive := False, countdown := Null\<rparr>"

text \<open>
  \<open>scheduleNextAutoCapture\<close> (lines 291-301) reads \<open>isAutoModeEnabled\<close>,
  \<open>capturedImages.length\<close> and \<open>selectedTimer\<close> from the closure; the timeout it sets
  is recorded in \<open>autoTimers\<close> and runs as \<open>nextAutoTimeout\<close>.
\<close>

definition scheduleNextAutoCapture :: "config \<Rightarrow> state \<Rightarrow> state \<Rightarrow> state" where
  "scheduleNextAutoCapture cfg c s =
     (if isAutoModeEnabled c \<and> int (length (capturedImages c)) < MAX_CAPTURE cfg - 1
      then s\<lparr>autoTimers := autoTimers s @ [(1000, selectedTimer cfg c)]\<rparr>
      else s\<lparr>isAutoSequenceActive := False, countdown := Null\<rparr>)"

definition nextAutoTimeout :: "state \<Rightarrow> state" where
  "nextAutoTimeout s =
     (case autoTimers s of
        [] \<Rightarrow> s
      | (ms, t) # ts \<Rightarrow> s\<lparr>autoTimers := ts, hasCapturedRef := False, countdown := t\<rparr>)"

text \<open>\<open>captureImage\<close> (lines 100-135).\<close>

definition captureImage :: "config \<Rightarrow> env \<Rightarrow> state \<Rightarrow> state \<Rightarrow> state" where
  "captureImage cfg e c s =
     (if \<not> isCameraStarted c \<or> \<not> videoRef e \<or> \<not> canvasRef e \<or>
         isMaxCaptureReached cfg c \<or> isCapturing c
      then s
      else
        let s1 = s\<lparr>isCapturing := True\<rparr> in
        if \<not> ctxAvailable e then s1\<lparr>isCapturing := False\<rparr>
        else
          let s2 = s1\<lparr>capturedImages := capturedImages s1 @ [imageData e]\<rparr>;
              s3 = s2\<lparr>isCapturing := False\<rparr>
          in scheduleNextAutoCapture cfg c s3)"

text \<open>\<open>undoCapture\<close> (lines 155-160); \<open>prev.slice(0, -1)\<close> drops the last element.\<close>

definition undoCapture :: "state \<Rightarrow> state \<Rightarrow> state" where
  "undoCapture c s =
     (if undoDisabled c then s
      else if capturedImages c \<noteq> []
           then s\<lparr>capturedImages := butlast (capturedImages s)\<rparr>
           else s)"

definition resetCaptures :: "state \<Rightarrow> state \<Rightarrow> state" where
  "resetCaptures c s =
     (if resetDisabled c then s
      else stopAutoSequence (s\<lparr>capturedImages := []\<rparr>))"

definition resetFilters :: "config \<Rightarrow> state \<Rightarrow> state \<Rightarrow> state" where
  "resetFilters cfg c s =
     (if resetDisabled c then s
      else s\<lparr>filters := DEFAULT_FILTERS cfg, activeFilters := [''mirror'']\<rparr>)"

text \<open>
  The updater used for mirror, brightness, contrast and saturate:
  \<open>prev.includes(id) ? prev.filter((f) => f !== id) : [...prev, id]\<close>.
\<close>

definition toggleActive :: "string \<Rightarrow> string list \<Rightarrow> string list" where
  "toggleActive fid prev =
     (if fid \<in> set prev then filter (\<lambda>f. f \<noteq> fid) prev else prev @ [fid])"

text \<open>The updater used for grayscale and sepia (lines 193-200 and 207-212).\<close>

definition toggleExclusive :: "string \<Rightarrow> string list \<Rightarrow> string list" where
  "toggleExclusive fid prev =
     (let newFilters = filter (\<lambda>f. f \<noteq> ''sepia'' \<and> f \<noteq> ''grayscale'') prev
      in if fid \<in> set prev then newFilters else newFilters @ [fid])"

definition toggleFilter :: "string \<Rightarrow> state \<Rightarrow> state \<Rightarrow> state" where
  "toggleFilter fid c s =
     (if filterDisabled c then s
      else if fid = ''mirror'' then
        s\<lparr>isMirrored := \<not> isMirrored s,
          activeFilters := toggleActive ''mirror'' (activeFilters s)\<rparr>
      else if fid = ''grayscale'' then
        s\<lparr>filters := (filters s)\<lparr>grayscale := (if grayscale (filters s) = 0 then 100 else 0),
                                  sepia := 0\<rparr>,
          activeFilters := toggleExclusive ''grayscale'' (activeFilters s)\<rparr>
      else if fid = ''sepia'' then
        s\<lparr>filters := (filters s)\<lparr>sepia := (if sepia (filters s) = 0 then 100 else 0),
                                  grayscale := 0\<rparr>,
          activeFilters := toggleExclusive ''sepia'' (activeFilters s)\<rparr>
      else if fid = ''brightness'' then
        s\<lparr>filters := (filters s)\<lparr>brightness :=
                                    (if brightness (filters s) = 100 then 130 else 100)\<rparr>,
          activeFilters := toggleActive ''brightness'' (activeFilters s)\<rparr>
      else if fid = ''contrast'' then
        s\<lparr>filters := (filters s)\<lparr>contrast :=
                                    (if contrast (filters s) = 100 then 130 else 100)\<rparr>,
          activeFilters := toggleActive ''contrast'' (activeFilters s)\<rparr>
      else if fid = ''saturate'' then
        s\<lparr>filters := (filters s)\<lparr>saturate :=
                                    (if saturate (filters s) = 100 then 150 else 100)\<rparr>,
          activeFilters := toggleActive ''saturate'' (activeFilters s)\<rparr>
      else s)"

definition startCapture :: "config \<Rightarrow> state \<Rightarrow> state \<Rightarrow> state" where
  "startCapture cfg c s =
     (if isMaxCaptureReached cfg c then s
      else
        let s1 = s\<lparr>countdown := selectedTimer cfg c\<rparr>
        in if isAutoModeEnabled c then s1\<lparr>isAutoSequenceActive := True\<rparr> else s1)"

definition toggleAutoMode :: "config \<Rightarrow> state \<Rightarrow> state \<Rightarrow> state" where
  "toggleAutoMode cfg c s =
     (if autoDisabled cfg c then s
      else
        let s1 = s\<lparr>isAutoModeEnabled := \<not> isAutoModeEnabled s\<rparr>
        in if isAutoSequenceActive c then stopAutoSequence s1 else s1)"

text \<open>
  \<open>goToLayoutScreen\<close> is a callback of the parent component; it hands the collection
  over and changes nothing the controller owns.
\<close>

definition goToLayoutScreen :: "state \<Rightarrow> state" where
  "goToLayoutScreen s = s"

subsection \<open>Effects and timers\<close>

text \<open>
  The camera effect (lines 65-86): \<open>getUserMedia\<close> resolves (\<open>granted\<close>) or rejects.
\<close>

definition startCamera :: "env \<Rightarrow> bool \<Rightarrow> state \<Rightarrow> state \<Rightarrow> state" where
  "startCamera e granted c s =
     (if isCameraStarted c then s
      else if granted then
        (if videoRef e then s\<lparr>isCameraStarted := True, cameraError := None\<rparr> else s)
      else s\<lparr>cameraError := Some ''errors.camera_access_required''\<rparr>)"

text \<open>The effect of lines 89-97, without the scrolling of the strip.\<close>

definition maxCaptureEffect :: "config \<Rightarrow> state \<Rightarrow> state \<Rightarrow> state" where
  "maxCaptureEffect cfg c s =
     (if isMaxCaptureReached cfg c \<and> isAutoSequenceActive c then stopAutoSequence s else s)"

text \<open>
  The body of the countdown effect (lines 273-288). The timeout it sets for a positive
  countdown is \<open>tickTimer\<close>; \<open>tickTimeout\<close> is that timeout's callback.
\<close>

definition countdownEffect :: "config \<Rightarrow> env \<Rightarrow> state \<Rightarrow> state \<Rightarrow> state" where
  "countdownEffect cfg e c s =
     (case countdown c of
        Null \<Rightarrow> s\<lparr>hasCapturedRef := False\<rparr>
      | Num n \<Rightarrow>
          (if n > 0 then s\<lparr>hasCapturedRef := False, tickTimer := True\<rparr>
           else if n = 0 \<and> \<not> hasCapturedRef s
                then captureImage cfg e c (s\<lparr>hasCapturedRef := True\<rparr>)
                else s)
      | Undefined \<Rightarrow> s
      | NaN \<Rightarrow> s)"

text \<open>The cleanup of the previous run, \<open>clearTimeout(timerId)\<close>, then the body.\<close>

definition countdownEffectRun :: "config \<Rightarrow> env \<Rightarrow> state \<Rightarrow> state \<Rightarrow> state" where
  "countdownEffectRun cfg e c s = countdownEffect cfg e c (s\<lparr>tickTimer := False\<rparr>)"

definition tickTimeout :: "state \<Rightarrow> state" where
  "tickTimeout s =
     (if tickTimer s
      then s\<lparr>tickTimer := False,
             countdown := (case countdown s of
                             Null \<Rightarrow> Null
                           | Num prev \<Rightarrow> Num (prev - 1)
                           | Undefined \<Rightarrow> NaN
                           | NaN \<Rightarrow> NaN)\<rparr>
      else s)"

text \<open>
  The keyboard effect (lines 304-352) registers \<open>handleKeyDown\<close> anew when one of its
  dependencies changes. The closure of the registered listener is \<open>keyClosure s\<close>:
  current in every dependency, and as old as the last registration in
  \<open>isAutoModeEnabled\<close> and \<open>selectedTimerIndex\<close>.
\<close>

definition keyboardEffect :: "state \<Rightarrow> state" where
  "keyboardEffect s =
     s\<lparr>kbAutoMode := isAutoModeEnabled s, kbTimerIndex := selectedTimerIndex s\<rparr>"

definition keyClosure :: "state \<Rightarrow> state" where
  "keyClosure s =
     s\<lparr>isAutoModeEnabled := kbAutoMode s, selectedTimerIndex := kbTimerIndex s\<rparr>"

definition handleKeyDown :: "config \<Rightarrow> env \<Rightarrow> string \<Rightarrow> state \<Rightarrow> state \<Rightarrow> state" where
  "handleKeyDown cfg e key c s =
     (if activeElementTag e = ''INPUT'' \<or> activeElementTag e = ''TEXTAREA'' then s
      else if key = '' '' \<or> key = ''Enter'' then
        (if canProceedToLayout e then goToLayoutScreen s
         else if isAutoSequenceActive c then stopAutoSequence s
         else if countdown c = Null then startCapture cfg c s
         else s\<lparr>countdown := Null\<rparr>)
      else if key = ''Backspace'' \<or> key = ''Delete'' then undoCapture c s
      else if key = ''Escape'' then resetCaptures c s
      else if key = ''a'' then toggleAutoMode cfg c s
      else s)"

subsection \<open>Events\<close>

text \<open>
  Between two events React has rendered, so the closure of a handler is the state the
  event finds. A click reaches \<open>onClick\<close> only when the button is not \<open>disabled\<close>
  (lines 425-427, 442-444, 463, 477, 499, 525, 535). Effects and timeouts run as
  events of their own: React runs an effect after the render that changed one of its
  dependencies, and the model leaves the moment open. An effect, too, runs from the
  state it finds; the handlers themselves are stated for any closure.
\<close>

datatype event =
    ClickFilter string
  | ClickResetFilters
  | ClickUndo
  | ClickTimer
  | ClickMain
  | ClickAuto
  | ClickReset
  | KeyDown string
  | TickTimeout
  | NextAutoTimeout
  | CameraEffect bool
  | MaxCaptureEffect
  | CountdownEffect
  | KeyboardEffect

definition filterButtonDisabled :: "state \<Rightarrow> bool" where
  "filterButtonDisabled c =
     (filterDisabled c \<or> isAutoSequenceActive c \<or> countdown c \<noteq> Null)"

definition mainButton :: "config \<Rightarrow> env \<Rightarrow> state \<Rightarrow> state \<Rightarrow> state" where
  "mainButton cfg e c s =
     (if canProceedToLayout e then goToLayoutScreen s
      else if isAutoSequenceActive c then stopAutoSequence s
      else if countdown c = Null then startCapture cfg c s
      else s\<lparr>countdown := Null\<rparr>)"

fun step :: "config \<Rightarrow> env \<Rightarrow> event \<Rightarrow> state \<Rightarrow> state" where
  "step cfg e (ClickFilter fid) s =
     (if filterButtonDisabled s then s else toggleFilter fid s s)"
| "step cfg e ClickResetFilters s =
     (if filterButtonDisabled s then s else resetFilters cfg s s)"
| "step cfg e ClickUndo s = (if undoDisabled s then s else undoCapture s s)"
| "step cfg e ClickTimer s = (if timerDisabled s then s else cycleTimer cfg s s)"
| "step cfg e ClickMain s = (if captureDisabled cfg e s then s else mainButton cfg e s s)"
| "step cfg e ClickAuto s = (if autoDisabled cfg s then s else toggleAutoMode cfg s s)"
| "step cfg e ClickReset s = (if resetDisabled s then s else resetCaptures s s)"
| "step cfg e (KeyDown key) s = handleKeyDown cfg e key (keyClosure s) s"
| "step cfg e TickTimeout s = tickTimeout s"
| "step cfg e NextAutoTimeout s = nextAutoTimeout s"
| "step cfg e (CameraEffect granted) s = startCamera e granted s s"
| "step cfg e MaxCaptureEffect s = maxCaptureEffect cfg s s"
| "step cfg e CountdownEffect s = countdownEffectRun cfg e s s"
| "step cfg e KeyboardEffect s = keyboardEffect s"

text \<open>A run: the events in order, each with what the outside shows at that moment.\<close>

fun run :: "config \<Rightarrow> (env \<times> event) list \<Rightarrow> state \<Rightarrow> state" where
  "run cfg [] s = s"
| "run cfg ((e, ev) # evs) s = run cfg evs (step cfg e ev s)"

text \<open>A sequence of \<open>toggleFilter\<close> calls, each from the render that follows the last.\<close>

fun toggleFilterSeq :: "string list \<Rightarrow> state \<Rightarrow> state" where
  "toggleFilterSeq [] s = s"
| "toggleFilterSeq (fid # fids) s = toggleFilterSeq fids (toggleFilter fid s s)"

text \<open>Grayscale and sepia are not both switched on.\<close>

definition exclusive :: "filter_settings \<Rightarrow> bool" where
  "exclusive fs = (grayscale fs = 0 \<or> sepia fs = 0)"

subsection \<open>An instance of the constants and of the outside\<close>

text \<open>
  Ten captures at most, timers of 3, 5 and 10 seconds with the first one selected, and
  neutral filters; a page with the camera element and the canvas in place and the focus
  on the body.
\<close>

definition exampleCfg :: config where
  "exampleCfg =
     \<lparr> MAX_CAPTURE = 10,
       TIMER_OPTIONS = [3, 5, 10],
       DEFAULT_TIMER_INDEX = 0,
       DEFAULT_FILTERS =
         \<lparr> brightness = 100, contrast = 100, grayscale = 0, sepia = 0, saturate = 100 \<rparr> \<rparr>"

definition exampleEnv :: env where
  "exampleEnv =
     \<lparr> canProceedToLayout = False,
       videoRef = True,
       canvasRef = True,
       ctxAvailable = True,
       imageData = ''data:image/png;base64,iVBORw0KGgo='',
       activeElementTag = ''BODY'' \<rparr>"

text \<open>What \<open>captureImage\<close> needs in order to go through to \<open>toDataURL\<close>.\<close>

definition captureReady :: "config \<Rightarrow> env \<Rightarrow> state \<Rightarrow> bool" where
  "captureReady cfg e c =
     (isCameraStarted c \<and> videoRef e \<and> canvasRef e \<and> \<not> isMaxCaptureReached cfg c \<and>
      \<not> isCapturing c \<and> ctxAvailable e)"

text \<open>
  Every knob holds one of the two values its toggle switches between (lines 190, 204,
  216, 226 and 236).
\<close>

definition toggleValues :: "filter_settings \<Rightarrow> bool" where
  "toggleValues fs =
     (brightness fs \<in> {100, 130} \<and> contrast fs \<in> {100, 130} \<and> saturate fs \<in> {100, 150} \<and>
      grayscale fs \<in> {0, 100} \<and> sepia fs \<in> {0, 100})"

text \<open>The highlighted identifiers agree with the values of grayscale and sepia.\<close>

definition highlightsAgree :: "state \<Rightarrow> bool" where
  "highlightsAgree s =
     ((''grayscale'' \<in> set (activeFilters s)) = (grayscale (filters s) \<noteq> 0) \<and>
      (''sepia'' \<in> set (activeFilters s)) = (sepia (filters s) \<noteq> 0))"

text \<open>
  What is asked of the absent constant \<open>DEFAULT_FILTERS\<close>: toggle values, with grayscale
  and sepia off, as \<open>resetFilters\<close> highlights \<open>mirror\<close> alone.
\<close>

definition neutralDefaults :: "config \<Rightarrow> bool" where
  "neutralDefaults cfg =
     (toggleValues (DEFAULT_FILTERS cfg) \<and>
      grayscale (DEFAULT_FILTERS cfg) = 0 \<and> sepia (DEFAULT_FILTERS cfg) = 0)"

definition toggledTwice :: "string \<Rightarrow> state \<Rightarrow> state" where
  "toggledTwice fid s = toggleFilterSeq [fid, fid] s"

text \<open>
  \<open>t\<close> shows the filter settings, the mirror flag and the set of highlighted
  identifiers of \<open>s\<close>.
\<close>

definition restored :: "state \<Rightarrow> state \<Rightarrow> bool" where
  "restored s t =
     (filters t = filters s \<and> isMirrored t = isMirrored s \<and>
      set (activeFilters t) = set (activeFilters s))"

subsection \<open>Runs of the instance\<close>

text \<open>
  The runs below follow React's schedule: after an event that changed a dependency of an
  effect, the effects with a changed dependency run in the order of their declaration
  (the effect of lines 89-97, the countdown effect, the keyboard effect).

  \<open>countdownFrom3\<close>: the three seconds after a countdown was set to 3, up to the tick
  that sets it to 0; the countdown effect for 0 has not run yet.
\<close>

definition countdownFrom3 :: "event list" where
  "countdownFrom3 =
     [CountdownEffect, KeyboardEffect, TickTimeout,
      CountdownEffect, KeyboardEffect, TickTimeout,
      CountdownEffect, KeyboardEffect, TickTimeout]"

text \<open>Camera access was refused, so the video element is not rendered.\<close>

definition deniedEnv :: env where
  "deniedEnv = exampleEnv\<lparr>videoRef := False\<rparr>"

text \<open>
  Camera access is refused, the user presses Space, and the countdown runs down to 0.
\<close>

definition keyboardStartNoCamera :: state where
  "keyboardStartNoCamera =
     run exampleCfg
       (map (Pair deniedEnv) ([CameraEffect False, KeyDown '' ''] @ countdownFrom3))
       (initial exampleCfg)"

text \<open>
  The camera starts, the user presses the capture button, and the countdown runs down
  to 0: the state in which the countdown effect takes the single shot.
\<close>

definition manualAtZero :: state where
  "manualAtZero =
     run exampleCfg
       (map (Pair exampleEnv) ([CameraEffect True, KeyboardEffect, ClickMain] @ countdownFrom3))
       (initial exampleCfg)"

text \<open>The shot is taken and the effects that follow it have run.\<close>

definition oneImageIdle :: state where
  "oneImageIdle =
     run exampleCfg
       (map (Pair exampleEnv)
          [CountdownEffect, MaxCaptureEffect, CountdownEffect, KeyboardEffect])
       manualAtZero"

text \<open>
  The user presses the capture button again and one second passes: one image is held
  and the countdown shows 2.
\<close>

definition countingDownAt2 :: state where
  "countingDownAt2 =
     run exampleCfg
       (map (Pair exampleEnv)
          [ClickMain, CountdownEffect, KeyboardEffect,
           TickTimeout, CountdownEffect, KeyboardEffect])
       oneImageIdle"

text \<open>
  The camera starts, the user switches auto mode on and presses the capture button: an
  auto-sequence is active and its first countdown shows 3.
\<close>

definition autoRunning :: state where
  "autoRunning =
     run exampleCfg
       (map (Pair exampleEnv)
          [CameraEffect True, KeyboardEffect, ClickAuto, ClickMain,
           MaxCaptureEffect, CountdownEffect, KeyboardEffect])
       (initial exampleCfg)"

text \<open>Three seconds later the first countdown of the auto-sequence is at 0.\<close>

definition autoAtZero :: state where
  "autoAtZero =
     run exampleCfg
       (map (Pair exampleEnv)
          [TickTimeout, CountdownEffect, KeyboardEffect, TickTimeout,
           CountdownEffect, KeyboardEffect, TickTimeout])
       autoRunning"

text \<open>
  The auto-sequence takes its first image; in the pause before the next countdown the
  user presses Space, which stops the sequence. The timeout of the pause then fires all
  the same, and the countdown it starts runs down to 0.
\<close>

definition stoppedInPause :: state where
  "stoppedInPause =
     run exampleCfg
       (map (Pair exampleEnv)
          ([CountdownEffect, MaxCaptureEffect, KeyboardEffect,
            KeyDown '' '', MaxCaptureEffect, CountdownEffect, KeyboardEffect,
            NextAutoTimeout] @ countdownFrom3))
       autoAtZero"

text \<open>The camera starts and the user switches the sepia filter on.\<close>

definition sepiaClicks :: "(env \<times> event) list" where
  "sepiaClicks =
     map (Pair exampleEnv)
       [CameraEffect True, KeyboardEffect, ClickFilter ''sepia'', KeyboardEffect]"

definition sepiaOn :: state where
  "sepiaOn = run exampleCfg sepiaClicks (initial exampleCfg)"

text \<open>The same constants with room for a single image, and a run that takes it.\<close>

definition singleCfg :: config where
  "singleCfg = exampleCfg\<lparr>MAX_CAPTURE := 1\<rparr>"

definition singleShot :: "(env \<times> event) list" where
  "singleShot =
     map (Pair exampleEnv)
       ([CameraEffect True, KeyboardEffect, ClickMain] @ countdownFrom3 @
        [CountdownEffect, MaxCaptureEffect, CountdownEffect, KeyboardEffect])"

section \<open>Properties\<close>

lemmas derived_defs =
  filterDisabled_def isMaxCaptureReached_def undoDisabled_def timerDisabled_def
  captureDisabled_def autoDisabled_def resetDisabled_def filterButtonDisabled_def
  selectedTimer_def

lemmas handler_defs =
  cycleTimer_def stopAutoSequence_def scheduleNextAutoCapture_def nextAutoTimeout_def
  captureImage_def undoCapture_def resetCaptures_def resetFilters_def toggleFilter_def
  startCapture_def toggleAutoMode_def goToLayoutScreen_def startCamera_def
  maxCaptureEffect_def countdownEffect_def countdownEffectRun_def tickTimeout_def
  keyboardEffect_def keyClosure_def handleKeyDown_def mainButton_def toggleActive_def
  toggleExclusive_def

lemmas example_defs =
  exampleCfg_def exampleEnv_def deniedEnv_def initial_def countdownFrom3_def
  singleCfg_def singleShot_def sepiaClicks_def

subsection \<open>The states the runs end in\<close>

lemma keyboardStartNoCamera_eq:
  "keyboardStartNoCamera =
     (initial exampleCfg)\<lparr>cameraError := Some ''errors.camera_access_required'',
                           countdown := Num 0\<rparr>"
  by (simp add: keyboardStartNoCamera_def example_defs derived_defs handler_defs)

lemma manualAtZero_eq:
  "manualAtZero = (initial exampleCfg)\<lparr>isCameraStarted := True, countdown := Num 0\<rparr>"
  by (simp add: manualAtZero_def example_defs derived_defs handler_defs)

lemma oneImageIdle_eq:
  "oneImageIdle =
     (initial exampleCfg)\<lparr>capturedImages := [imageData exampleEnv], isCameraStarted := True\<rparr>"
  by (simp add: oneImageIdle_def manualAtZero_eq example_defs derived_defs handler_defs)

lemma countingDownAt2_eq:
  "countingDownAt2 =
     (initial exampleCfg)\<lparr>capturedImages := [imageData exampleEnv], isCameraStarted := True,
                           countdown := Num 2, tickTimer := True\<rparr>"
  by (simp add: countingDownAt2_def oneImageIdle_eq example_defs derived_defs handler_defs)

lemma autoRunning_eq:
  "autoRunning =
     (initial exampleCfg)\<lparr>isCameraStarted := True, isAutoModeEnabled := True,
                           isAutoSequenceActive := True, countdown := Num 3,
                           tickTimer := True, kbAutoMode := True\<rparr>"
  by (simp add: autoRunning_def example_defs derived_defs handler_defs)

lemma autoAtZero_eq:
  "autoAtZero =
     (initial exampleCfg)\<lparr>isCameraStarted := True, isAutoModeEnabled := True,
                           isAutoSequenceActive := True, countdown := Num 0,
                           kbAutoMode := True\<rparr>"
  by (simp add: autoAtZero_def autoRunning_eq example_defs derived_defs handler_defs)

lemma stoppedInPause_eq:
  "stoppedInPause =
     (initial exampleCfg)\<lparr>capturedImages := [imageData exampleEnv], isCameraStarted := True,
                           isAutoModeEnabled := True, countdown := Num 0,
                           kbAutoMode := True\<rparr>"
  by (simp add: stoppedInPause_def autoAtZero_eq example_defs derived_defs handler_defs)

lemma sepiaOn_eq:
  "sepiaOn =
     (initial exampleCfg)\<lparr>filters := (DEFAULT_FILTERS exampleCfg)\<lparr>sepia := 100\<rparr>,
                           isCameraStarted := True,
                           activeFilters := [''mirror'', ''sepia'']\<rparr>"
  by (simp add: sepiaOn_def example_defs derived_defs handler_defs)

lemma singleShot_eq:
  "run singleCfg singleShot (initial singleCfg) =
     (initial singleCfg)\<lparr>capturedImages := [imageData exampleEnv], isCameraStarted := True\<rparr>"
  by (simp add: example_defs derived_defs handler_defs)

subsection \<open>The quota\<close>

lemma step_bound:
  "int (length (capturedImages s)) \<le> MAX_CAPTURE cfg \<Longrightarrow>
   int (length (capturedImages (step cfg e ev s))) \<le> MAX_CAPTURE cfg"
  by (cases ev)
    (auto simp: derived_defs handler_defs Let_def split: countdown_val.splits list.splits)

lemma run_bound:
  "int (length (capturedImages s)) \<le> MAX_CAPTURE cfg \<Longrightarrow>
   int (length (capturedImages (run cfg evs s))) \<le> MAX_CAPTURE cfg"
proof (induction evs arbitrary: s)
  case Nil
  then show ?case by simp
next
  case (Cons p evs)
  obtain e ev where p: "p = (e, ev)" by (cases p)
  from Cons.prems have "int (length (capturedImages (step cfg e ev s))) \<le> MAX_CAPTURE cfg"
    by (rule step_bound)
  then show ?case unfolding p run.simps by (rule Cons.IH)
qed

text \<open>
  Claim C1. Whatever events occur (clicks, keys, timeouts, effects), the collection
  never holds more than \<open>MAX_CAPTURE\<close> images: from the first render when
  \<open>MAX_CAPTURE\<close> is not negative, and from any state within the quota.
  \<open>captureImage\<close> changes nothing when its render already holds \<open>MAX_CAPTURE\<close>
  images, and it stays within the quota whenever the collection it updates is no longer
  than the one its render saw.
\<close>

theorem captured_images_bounded:
  "(0 \<le> MAX_CAPTURE cfg \<longrightarrow>
      int (length (capturedImages (run cfg evs (initial cfg)))) \<le> MAX_CAPTURE cfg) \<and>
   (int (length (capturedImages s)) \<le> MAX_CAPTURE cfg \<longrightarrow>
      int (length (capturedImages (run cfg evs s))) \<le> MAX_CAPTURE cfg) \<and>
   (isMaxCaptureReached cfg c \<longrightarrow> captureImage cfg e c t = t) \<and>
   (length (capturedImages t) \<le> length (capturedImages c) \<and>
    int (length (capturedImages t)) \<le> MAX_CAPTURE cfg \<longrightarrow>
      int (length (capturedImages (captureImage cfg e c t))) \<le> MAX_CAPTURE cfg)"
proof (intro conjI impI)
  assume "0 \<le> MAX_CAPTURE cfg"
  then have "int (length (capturedImages (initial cfg))) \<le> MAX_CAPTURE cfg"
    by (simp add: initial_def)
  then show "int (length (capturedImages (run cfg evs (initial cfg)))) \<le> MAX_CAPTURE cfg"
    by (rule run_bound)
next
  assume "int (length (capturedImages s)) \<le> MAX_CAPTURE cfg"
  then show "int (length (capturedImages (run cfg evs s))) \<le> MAX_CAPTURE cfg"
    by (rule run_bound)
next
  assume "isMaxCaptureReached cfg c"
  then show "captureImage cfg e c t = t" by (simp add: captureImage_def)
next
  assume "length (capturedImages t) \<le> length (capturedImages c) \<and>
    int (length (capturedImages t)) \<le> MAX_CAPTURE cfg"
  then show "int (length (capturedImages (captureImage cfg e c t))) \<le> MAX_CAPTURE cfg"
    by (auto simp: captureImage_def scheduleNextAutoCapture_def isMaxCaptureReached_def Let_def)
qed

theorem captured_images_bounded_witness:
  "0 \<le> MAX_CAPTURE singleCfg \<and>
   int (length (capturedImages (run singleCfg singleShot (initial singleCfg)))) = 1 \<and>
   int (length (capturedImages (run singleCfg singleShot (initial singleCfg))))
     \<le> MAX_CAPTURE singleCfg \<and>
   isMaxCaptureReached singleCfg (run singleCfg singleShot (initial singleCfg)) \<and>
   captureImage singleCfg exampleEnv (run singleCfg singleShot (initial singleCfg))
       (run singleCfg singleShot (initial singleCfg)) =
     run singleCfg singleShot (initial singleCfg)"
  using captured_images_bounded [where cfg = singleCfg and evs = singleShot
      and s = "initial singleCfg" and e = exampleEnv
      and c = "run singleCfg singleShot (initial singleCfg)"
      and t = "run singleCfg singleShot (initial singleCfg)"]
  unfolding singleShot_eq
  by (simp add: isMaxCaptureReached_def initial_def singleCfg_def exampleCfg_def)

subsection \<open>Grayscale and sepia\<close>

lemma toggleFilter_exclusive:
  "exclusive (filters s) \<Longrightarrow> exclusive (filters (toggleFilter fid c s))"
  by (simp add: toggleFilter_def exclusive_def)

lemma step_exclusive:
  assumes "exclusive (DEFAULT_FILTERS cfg)" and "exclusive (filters s)"
  shows "exclusive (filters (step cfg e ev s))"
proof (cases ev)
  case (ClickFilter fid)
  then show ?thesis using assms(2) by (simp add: toggleFilter_exclusive)
next
  case ClickResetFilters
  then show ?thesis using assms by (simp add: resetFilters_def)
next
  case (KeyDown key)
  then show ?thesis using assms(2)
    by (simp add: handleKeyDown_def keyClosure_def goToLayoutScreen_def stopAutoSequence_def
        startCapture_def undoCapture_def resetCaptures_def toggleAutoMode_def Let_def)
next
  case CountdownEffect
  then show ?thesis using assms(2)
    by (simp add: countdownEffectRun_def countdownEffect_def captureImage_def
        scheduleNextAutoCapture_def Let_def split: countdown_val.splits)
qed (use assms(2) in \<open>simp_all add: undoCapture_def cycleTimer_def mainButton_def
      goToLayoutScreen_def stopAutoSequence_def startCapture_def toggleAutoMode_def
      resetCaptures_def tickTimeout_def nextAutoTimeout_def startCamera_def
      maxCaptureEffect_def keyboardEffect_def Let_def split: list.splits\<close>)

lemma run_exclusive:
  "exclusive (DEFAULT_FILTERS cfg) \<Longrightarrow> exclusive (filters s) \<Longrightarrow>
   exclusive (filters (run cfg evs s))"
proof (induction evs arbitrary: s)
  case Nil
  then show ?case by simp
next
  case (Cons p evs)
  obtain e ev where p: "p = (e, ev)" by (cases p)
  have "exclusive (filters (step cfg e ev s))"
    using Cons.prems by (rule step_exclusive)
  with Cons.prems(1) show ?case unfolding p run.simps by (rule Cons.IH)
qed

lemma toggleFilterSeq_exclusive:
  "exclusive (filters s) \<Longrightarrow> exclusive (filters (toggleFilterSeq fids s))"
  by (induction fids arbitrary: s) (simp_all add: toggleFilter_exclusive)

text \<open>
  Claim C3. With defaults in which grayscale and sepia are not both non-zero, every
  state reached from the first render, followed by any sequence of \<open>toggleFilter\<close>
  calls, has grayscale or sepia at zero; and a \<open>toggleFilter\<close> of grayscale that goes
  through sets sepia to zero, as one of sepia sets grayscale to zero.
\<close>

theorem grayscale_sepia_exclusive:
  assumes "exclusive (DEFAULT_FILTERS cfg)"
  shows "exclusive (filters (toggleFilterSeq fids (run cfg evs (initial cfg)))) \<and>
         (isCameraStarted c \<longrightarrow>
            sepia (filters (toggleFilter ''grayscale'' c s)) = 0 \<and>
            grayscale (filters (toggleFilter ''sepia'' c s)) = 0)"
proof
  have "exclusive (filters (initial cfg))"
    using assms by (simp add: initial_def)
  with assms have "exclusive (filters (run cfg evs (initial cfg)))"
    by (rule run_exclusive)
  then show "exclusive (filters (toggleFilterSeq fids (run cfg evs (initial cfg))))"
    by (rule toggleFilterSeq_exclusive)
next
  show "isCameraStarted c \<longrightarrow>
          sepia (filters (toggleFilter ''grayscale'' c s)) = 0 \<and>
          grayscale (filters (toggleFilter ''sepia'' c s)) = 0"
    by (simp add: toggleFilter_def filterDisabled_def)
qed

theorem grayscale_sepia_exclusive_witness:
  "exclusive (DEFAULT_FILTERS exampleCfg) \<and> isCameraStarted sepiaOn \<and>
   sepia (filters sepiaOn) = 100 \<and>
   exclusive (filters (toggleFilterSeq [''grayscale'', ''contrast''] sepiaOn)) \<and>
   grayscale (filters (toggleFilter ''grayscale'' sepiaOn sepiaOn)) = 100 \<and>
   sepia (filters (toggleFilter ''grayscale'' sepiaOn sepiaOn)) = 0"
  using grayscale_sepia_exclusive [where cfg = exampleCfg and evs = sepiaClicks
      and fids = "[''grayscale'', ''contrast'']" and c = sepiaOn and s = sepiaOn,
      folded sepiaOn_def]
  by (simp add: sepiaOn_eq exclusive_def toggleFilter_def filterDisabled_def initial_def
      exampleCfg_def)

subsection \<open>Capture and undo\<close>

text \<open>
  Claim C4. When \<open>captureImage\<close> has appended an image and the state it leaves permits
  undo, \<open>undoCapture\<close> (and a click on the undo button) in that state gives back the
  collection as it was before the capture; undo changes nothing but the collection, from
  which it drops the last entry.
\<close>

theorem undo_inverts_capture:
  assumes "capturedImages (captureImage cfg e c s) \<noteq> capturedImages s"
    and "\<not> undoDisabled (captureImage cfg e c s)"
  shows "capturedImages (undoCapture (captureImage cfg e c s) (captureImage cfg e c s)) =
           capturedImages s \<and>
         capturedImages (step cfg e' ClickUndo (captureImage cfg e c s)) = capturedImages s \<and>
         undoCapture (captureImage cfg e c s) (captureImage cfg e c s) =
           (captureImage cfg e c s)
             \<lparr>capturedImages := butlast (capturedImages (captureImage cfg e c s))\<rparr>"
  using assms
  by (auto simp: captureImage_def undoCapture_def scheduleNextAutoCapture_def undoDisabled_def
      Let_def split: if_splits)

theorem undo_inverts_capture_witness:
  "capturedImages (captureImage exampleCfg exampleEnv manualAtZero manualAtZero) \<noteq>
     capturedImages manualAtZero \<and>
   \<not> undoDisabled (captureImage exampleCfg exampleEnv manualAtZero manualAtZero) \<and>
   capturedImages (captureImage exampleCfg exampleEnv manualAtZero manualAtZero) =
     [imageData exampleEnv] \<and>
   capturedImages
     (undoCapture (captureImage exampleCfg exampleEnv manualAtZero manualAtZero)
        (captureImage exampleCfg exampleEnv manualAtZero manualAtZero)) =
     capturedImages manualAtZero"
  using undo_inverts_capture [where cfg = exampleCfg and e = exampleEnv and e' = exampleEnv
      and c = manualAtZero and s = manualAtZero]
  by (simp add: manualAtZero_eq captureImage_def scheduleNextAutoCapture_def undoDisabled_def
      isMaxCaptureReached_def initial_def exampleCfg_def exampleEnv_def)

text \<open>
  Claim C8. Called from a render in which the quota is reached, a capture is in
  progress or the camera has not started, \<open>captureImage\<close> returns with every part of the
  state as it was (the handler has no \<open>throw\<close>); so does \<open>startCapture\<close> at the quota.
\<close>

theorem captureImage_declines:
  assumes "isMaxCaptureReached cfg c \<or> isCapturing c \<or> \<not> isCameraStarted c"
  shows "captureImage cfg e c s = s \<and> (isMaxCaptureReached cfg c \<longrightarrow> startCapture cfg c s = s)"
  using assms by (auto simp: captureImage_def startCapture_def)

theorem captureImage_declines_witness:
  "\<not> isCameraStarted (initial exampleCfg) \<and>
   captureImage exampleCfg exampleEnv (initial exampleCfg) (initial exampleCfg) =
     initial exampleCfg"
  using captureImage_declines [where cfg = exampleCfg and e = exampleEnv
      and c = "initial exampleCfg" and s = "initial exampleCfg"]
  by (simp add: initial_def)

subsection \<open>Resetting the filters\<close>

text \<open>
  Claim C10. Called from a render in which the collection is empty, an auto-sequence
  is active or a countdown is in progress, \<open>resetFilters\<close> changes nothing, and neither
  does a click on its button; so the filters cannot be reset before an image is taken.
\<close>

theorem resetFilters_declines:
  assumes "capturedImages c = [] \<or> isAutoSequenceActive c \<or> countdown c \<noteq> Null"
  shows "resetFilters cfg c s = s \<and> step cfg e ClickResetFilters c = c"
  using assms by (auto simp: resetFilters_def resetDisabled_def)

theorem resetFilters_declines_witness:
  "capturedImages sepiaOn = [] \<and> filters sepiaOn \<noteq> DEFAULT_FILTERS exampleCfg \<and>
   resetFilters exampleCfg sepiaOn sepiaOn = sepiaOn \<and>
   step exampleCfg exampleEnv ClickResetFilters sepiaOn = sepiaOn"
  using resetFilters_declines [where cfg = exampleCfg and e = exampleEnv
      and c = sepiaOn and s = sepiaOn]
  by (simp add: sepiaOn_eq initial_def exampleCfg_def)

subsection \<open>The countdown reaching zero\<close>

text \<open>
  With camera access refused the capture button is disabled, yet Space starts a
  countdown (\<open>startCapture\<close> looks at the quota only). When it reaches zero the
  countdown effect calls \<open>captureImage\<close>, which declines: no image is appended.
\<close>

theorem zero_tick_without_camera_counterexample:
  "countdown keyboardStartNoCamera = Num 0 \<and> \<not> hasCapturedRef keyboardStartNoCamera \<and>
   capturedImages (step exampleCfg deniedEnv CountdownEffect keyboardStartNoCamera) =
     capturedImages keyboardStartNoCamera"
  by (simp add: keyboardStartNoCamera_eq example_defs derived_defs handler_defs)

text \<open>
  Claim C2, amended. When the countdown effect runs for a countdown of zero with
  \<open>hasCapturedRef\<close> clear, it appends exactly one image if \<open>captureImage\<close> goes through
  (camera started, video and canvas present, a 2D context obtained, quota not reached,
  no capture in progress) and none otherwise. It never appends two: a second run from
  the same render changes nothing, and a run from the render that follows appends
  nothing.
\<close>

theorem zero_tick_at_most_one_capture:
  assumes "countdown c = Num 0"
  shows "(\<not> hasCapturedRef s \<and> captureReady cfg e c \<longrightarrow>
            capturedImages (countdownEffectRun cfg e c s) = capturedImages s @ [imageData e]) \<and>
         (\<not> captureReady cfg e c \<longrightarrow>
            capturedImages (countdownEffectRun cfg e c s) = capturedImages s) \<and>
         countdownEffectRun cfg e' c (countdownEffectRun cfg e c s) =
           countdownEffectRun cfg e c s \<and>
         capturedImages (step cfg e' CountdownEffect (countdownEffectRun cfg e c s)) =
           capturedImages (countdownEffectRun cfg e c s)"
  using assms
  by (auto simp: captureReady_def countdownEffectRun_def countdownEffect_def captureImage_def
      scheduleNextAutoCapture_def Let_def split: countdown_val.splits)

theorem zero_tick_at_most_one_capture_witness:
  "countdown manualAtZero = Num 0 \<and> \<not> hasCapturedRef manualAtZero \<and>
   captureReady exampleCfg exampleEnv manualAtZero \<and>
   capturedImages (countdownEffectRun exampleCfg exampleEnv manualAtZero manualAtZero) =
     [imageData exampleEnv] \<and>
   countdownEffectRun exampleCfg exampleEnv manualAtZero
     (countdownEffectRun exampleCfg exampleEnv manualAtZero manualAtZero) =
     countdownEffectRun exampleCfg exampleEnv manualAtZero manualAtZero"
  using zero_tick_at_most_one_capture [where c = manualAtZero and s = manualAtZero
      and cfg = exampleCfg and e = exampleEnv and e' = exampleEnv]
  by (simp add: manualAtZero_eq captureReady_def example_defs derived_defs)

subsection \<open>The next countdown of an auto-sequence\<close>

text \<open>
  An auto-sequence stopped in its pause: \<open>isAutoSequenceActive\<close> is false, auto mode is
  still switched on and one image is held. The capture at the end of the countdown that
  the pending timeout started sets a timeout for yet another countdown and leaves the
  countdown at 0.
\<close>

theorem next_countdown_without_sequence_counterexample:
  "countdown stoppedInPause = Num 0 \<and> \<not> isAutoSequenceActive stoppedInPause \<and>
   int (length (capturedImages stoppedInPause)) < MAX_CAPTURE exampleCfg - 1 \<and>
   autoTimers stoppedInPause = [] \<and>
   autoTimers (step exampleCfg exampleEnv CountdownEffect stoppedInPause) = [(1000, Num 3)] \<and>
   countdown (step exampleCfg exampleEnv CountdownEffect stoppedInPause) \<noteq> Null"
  by (simp add: stoppedInPause_eq example_defs derived_defs handler_defs)

text \<open>
  Claim C5, amended. A capture that goes through appends its image and then looks at
  \<open>isAutoModeEnabled\<close> and at the number of images its render held before the capture.
  If auto mode is switched on and that number is below \<open>MAX_CAPTURE - 1\<close>, a timeout
  of 1000 ms is set which seeds the countdown with the selected timer, and
  \<open>isAutoSequenceActive\<close> and the countdown are left as they are; otherwise
  \<open>isAutoSequenceActive\<close> is cleared and the countdown is set to none.
\<close>

theorem next_countdown_by_auto_mode:
  assumes "captureReady cfg e c"
  shows "(isAutoModeEnabled c \<and> int (length (capturedImages c)) < MAX_CAPTURE cfg - 1 \<longrightarrow>
            captureImage cfg e c s =
              s\<lparr>capturedImages := capturedImages s @ [imageData e], isCapturing := False,
                autoTimers := autoTimers s @ [(1000, selectedTimer cfg c)]\<rparr> \<and>
            (autoTimers s = [] \<longrightarrow>
               countdown (nextAutoTimeout (captureImage cfg e c s)) = selectedTimer cfg c)) \<and>
         (\<not> (isAutoModeEnabled c \<and> int (length (capturedImages c)) < MAX_CAPTURE cfg - 1) \<longrightarrow>
            captureImage cfg e c s =
              s\<lparr>capturedImages := capturedImages s @ [imageData e], isCapturing := False,
                isAutoSequenceActive := False, countdown := Null\<rparr>)"
  using assms
  by (auto simp: captureReady_def captureImage_def scheduleNextAutoCapture_def
      nextAutoTimeout_def Let_def)

theorem next_countdown_by_auto_mode_witness:
  "captureReady exampleCfg exampleEnv autoAtZero \<and> isAutoModeEnabled autoAtZero \<and>
   int (length (capturedImages autoAtZero)) < MAX_CAPTURE exampleCfg - 1 \<and>
   autoTimers (captureImage exampleCfg exampleEnv autoAtZero autoAtZero) = [(1000, Num 3)] \<and>
   isAutoSequenceActive (captureImage exampleCfg exampleEnv autoAtZero autoAtZero) \<and>
   countdown (captureImage exampleCfg exampleEnv autoAtZero autoAtZero) = Num 0 \<and>
   countdown (nextAutoTimeout (captureImage exampleCfg exampleEnv autoAtZero autoAtZero)) =
     Num 3 \<and>
   captureReady exampleCfg exampleEnv manualAtZero \<and> \<not> isAutoModeEnabled manualAtZero \<and>
   countdown (captureImage exampleCfg exampleEnv manualAtZero manualAtZero) = Null"
  using next_countdown_by_auto_mode [where cfg = exampleCfg and e = exampleEnv
      and c = autoAtZero and s = autoAtZero]
    next_countdown_by_auto_mode [where cfg = exampleCfg and e = exampleEnv
      and c = manualAtZero and s = manualAtZero]
  by (simp add: autoAtZero_eq manualAtZero_eq captureReady_def captureImage_def
      scheduleNextAutoCapture_def nextAutoTimeout_def example_defs derived_defs)

subsection \<open>Reset\<close>




subsection \<open>Auto mode\<close>

text \<open>
  An auto-sequence is active and its countdown shows 3: the \<open>a\<close> key, the auto button
  and \<open>toggleAutoMode\<close> itself change nothing, and the sequence goes on.
\<close>

theorem toggle_auto_mid_sequence_counterexample:
  "isAutoSequenceActive autoRunning \<and> countdown autoRunning = Num 3 \<and>
   toggleAutoMode exampleCfg autoRunning autoRunning = autoRunning \<and>
   step exampleCfg exampleEnv (KeyDown ''a'') autoRunning = autoRunning \<and>
   step exampleCfg exampleEnv ClickAuto autoRunning = autoRunning"
  by (simp add: autoRunning_eq example_defs derived_defs handler_defs)

lemma autoDisabled_keyClosure: "autoDisabled cfg (keyClosure s) = autoDisabled cfg s"
  by (simp add: autoDisabled_def keyClosure_def isMaxCaptureReached_def)

lemma toggleAutoMode_disabled: "autoDisabled cfg c \<Longrightarrow> toggleAutoMode cfg c s = s"
  by (simp add: toggleAutoMode_def)

lemma toggleAutoMode_enabled:
  "\<not> autoDisabled cfg c \<Longrightarrow>
   toggleAutoMode cfg c s = s\<lparr>isAutoModeEnabled := \<not> isAutoModeEnabled s\<rparr>"
  by (simp add: toggleAutoMode_def autoDisabled_def)

lemma keyDown_a_disabled: "autoDisabled cfg s \<Longrightarrow> step cfg e (KeyDown ''a'') s = s"
  by (simp add: handleKeyDown_def toggleAutoMode_disabled autoDisabled_keyClosure)

text \<open>
  Claim C7, amended. While an auto-sequence is active, \<open>toggleAutoMode\<close> (the auto
  button, the \<open>a\<close> key) changes nothing: the sequence stays active and its countdown is
  kept. The same holds while a countdown is running, before the camera has started, at
  the quota and while a capture is in progress. \<open>toggleAutoMode\<close> acts only from a
  render with none of these, hence with no auto-sequence and no countdown, and there it
  flips \<open>isAutoModeEnabled\<close> and nothing else.
\<close>

theorem toggleAutoMode_only_when_idle:
  "(isAutoSequenceActive c \<longrightarrow> toggleAutoMode cfg c s = s) \<and>
   (isAutoSequenceActive s \<longrightarrow>
      step cfg e (KeyDown ''a'') s = s \<and> step cfg e ClickAuto s = s) \<and>
   (\<not> autoDisabled cfg c \<longrightarrow>
      \<not> isAutoSequenceActive c \<and> countdown c = Null \<and>
      toggleAutoMode cfg c s = s\<lparr>isAutoModeEnabled := \<not> isAutoModeEnabled s\<rparr>) \<and>
   (\<not> isCameraStarted c \<or> isMaxCaptureReached cfg c \<or> isCapturing c \<or>
    countdown c \<noteq> Null \<or> isAutoSequenceActive c \<longrightarrow>
      toggleAutoMode cfg c s = s) \<and>
   (\<not> isCameraStarted s \<or> isMaxCaptureReached cfg s \<or> isCapturing s \<or>
    countdown s \<noteq> Null \<or> isAutoSequenceActive s \<longrightarrow>
      step cfg e (KeyDown ''a'') s = s \<and> step cfg e ClickAuto s = s) \<and>
   (isCameraStarted c \<and> \<not> isMaxCaptureReached cfg c \<and> \<not> isCapturing c \<and>
    countdown c = Null \<and> \<not> isAutoSequenceActive c \<longrightarrow>
      toggleAutoMode cfg c s = s\<lparr>isAutoModeEnabled := \<not> isAutoModeEnabled s\<rparr>) \<and>
   (autoDisabled cfg c \<longrightarrow> toggleAutoMode cfg c s = s) \<and>
   (autoDisabled cfg s \<longrightarrow>
      step cfg e (KeyDown ''a'') s = s \<and> step cfg e ClickAuto s = s)"
proof (intro conjI impI)
  assume "isAutoSequenceActive c"
  then have "autoDisabled cfg c" by (simp add: autoDisabled_def)
  then show "toggleAutoMode cfg c s = s" by (rule toggleAutoMode_disabled)
next
  assume "isAutoSequenceActive s"
  then have d: "autoDisabled cfg s" by (simp add: autoDisabled_def)
  then show "step cfg e (KeyDown ''a'') s = s" by (rule keyDown_a_disabled)
  from d show "step cfg e ClickAuto s = s" by simp
next
  assume n: "\<not> autoDisabled cfg c"
  then show "\<not> isAutoSequenceActive c" and "countdown c = Null"
    by (simp_all add: autoDisabled_def)
  from n show "toggleAutoMode cfg c s = s\<lparr>isAutoModeEnabled := \<not> isAutoModeEnabled s\<rparr>"
    by (rule toggleAutoMode_enabled)
next
  assume "\<not> isCameraStarted c \<or> isMaxCaptureReached cfg c \<or> isCapturing c \<or>
    countdown c \<noteq> Null \<or> isAutoSequenceActive c"
  then have "autoDisabled cfg c" by (simp add: autoDisabled_def)
  then show "toggleAutoMode cfg c s = s" by (rule toggleAutoMode_disabled)
next
  assume "\<not> isCameraStarted s \<or> isMaxCaptureReached cfg s \<or> isCapturing s \<or>
    countdown s \<noteq> Null \<or> isAutoSequenceActive s"
  then have d: "autoDisabled cfg s" by (simp add: autoDisabled_def)
  then show "step cfg e (KeyDown ''a'') s = s" by (rule keyDown_a_disabled)
  from d show "step cfg e ClickAuto s = s" by simp
next
  assume "isCameraStarted c \<and> \<not> isMaxCaptureReached cfg c \<and> \<not> isCapturing c \<and>
    countdown c = Null \<and> \<not> isAutoSequenceActive c"
  then have "\<not> autoDisabled cfg c" by (simp add: autoDisabled_def)
  then show "toggleAutoMode cfg c s = s\<lparr>isAutoModeEnabled := \<not> isAutoModeEnabled s\<rparr>"
    by (rule toggleAutoMode_enabled)
next
  assume "autoDisabled cfg c"
  then show "toggleAutoMode cfg c s = s" by (rule toggleAutoMode_disabled)
next
  assume d: "autoDisabled cfg s"
  then show "step cfg e (KeyDown ''a'') s = s" by (rule keyDown_a_disabled)
  from d show "step cfg e ClickAuto s = s" by simp
qed

theorem toggleAutoMode_only_when_idle_witness:
  "isAutoSequenceActive autoRunning \<and>
   step exampleCfg exampleEnv (KeyDown ''a'') autoRunning = autoRunning \<and>
   countdown countingDownAt2 \<noteq> Null \<and> \<not> isAutoSequenceActive countingDownAt2 \<and>
   toggleAutoMode exampleCfg countingDownAt2 countingDownAt2 = countingDownAt2 \<and>
   step exampleCfg exampleEnv (KeyDown ''a'') countingDownAt2 = countingDownAt2 \<and>
   step exampleCfg exampleEnv ClickAuto countingDownAt2 = countingDownAt2 \<and>
   \<not> isCameraStarted (initial exampleCfg) \<and>
   step exampleCfg exampleEnv (KeyDown ''a'') (initial exampleCfg) = initial exampleCfg \<and>
   \<not> autoDisabled exampleCfg oneImageIdle \<and>
   toggleAutoMode exampleCfg oneImageIdle oneImageIdle =
     oneImageIdle\<lparr>isAutoModeEnabled := True\<rparr>"
  using toggleAutoMode_only_when_idle [where cfg = exampleCfg and e = exampleEnv
      and c = autoRunning and s = autoRunning]
    toggleAutoMode_only_when_idle [where cfg = exampleCfg and e = exampleEnv
      and c = countingDownAt2 and s = countingDownAt2]
    toggleAutoMode_only_when_idle [where cfg = exampleCfg and e = exampleEnv
      and c = "initial exampleCfg" and s = "initial exampleCfg"]
    toggleAutoMode_only_when_idle [where cfg = exampleCfg and e = exampleEnv
      and c = oneImageIdle and s = oneImageIdle]
  by (simp add: autoRunning_eq countingDownAt2_eq oneImageIdle_eq autoDisabled_def
      isMaxCaptureReached_def initial_def exampleCfg_def exampleEnv_def)

subsection \<open>Toggling a filter twice\<close>

lemma toggleFilter_disabled: "\<not> isCameraStarted c \<Longrightarrow> toggleFilter fid c s = s"
  by (simp add: toggleFilter_def filterDisabled_def)

lemma toggleFilter_mirror:
  "isCameraStarted c \<Longrightarrow> toggleFilter ''mirror'' c s =
     s\<lparr>isMirrored := \<not> isMirrored s,
       activeFilters := toggleActive ''mirror'' (activeFilters s)\<rparr>"
  by (simp add: toggleFilter_def filterDisabled_def)

lemma toggleFilter_grayscale:
  "isCameraStarted c \<Longrightarrow> toggleFilter ''grayscale'' c s =
     s\<lparr>filters := (filters s)\<lparr>grayscale := (if grayscale (filters s) = 0 then 100 else 0),
                               sepia := 0\<rparr>,
       activeFilters := toggleExclusive ''grayscale'' (activeFilters s)\<rparr>"
  by (simp add: toggleFilter_def filterDisabled_def)

lemma toggleFilter_sepia:
  "isCameraStarted c \<Longrightarrow> toggleFilter ''sepia'' c s =
     s\<lparr>filters := (filters s)\<lparr>sepia := (if sepia (filters s) = 0 then 100 else 0),
                               grayscale := 0\<rparr>,
       activeFilters := toggleExclusive ''sepia'' (activeFilters s)\<rparr>"
  by (simp add: toggleFilter_def filterDisabled_def)

lemma toggleFilter_brightness:
  "isCameraStarted c \<Longrightarrow> toggleFilter ''brightness'' c s =
     s\<lparr>filters := (filters s)\<lparr>brightness :=
                                 (if brightness (filters s) = 100 then 130 else 100)\<rparr>,
       activeFilters := toggleActive ''brightness'' (activeFilters s)\<rparr>"
  by (simp add: toggleFilter_def filterDisabled_def)

lemma toggleFilter_contrast:
  "isCameraStarted c \<Longrightarrow> toggleFilter ''contrast'' c s =
     s\<lparr>filters := (filters s)\<lparr>contrast :=
                                 (if contrast (filters s) = 100 then 130 else 100)\<rparr>,
       activeFilters := toggleActive ''contrast'' (activeFilters s)\<rparr>"
  by (simp add: toggleFilter_def filterDisabled_def)

lemma toggleFilter_saturate:
  "isCameraStarted c \<Longrightarrow> toggleFilter ''saturate'' c s =
     s\<lparr>filters := (filters s)\<lparr>saturate :=
                                 (if saturate (filters s) = 100 then 150 else 100)\<rparr>,
       activeFilters := toggleActive ''saturate'' (activeFilters s)\<rparr>"
  by (simp add: toggleFilter_def filterDisabled_def)

lemma toggleFilter_other:
  "fid \<notin> {''mirror'', ''grayscale'', ''sepia'', ''brightness'', ''contrast'', ''saturate''} \<Longrightarrow>
   toggleFilter fid c s = s"
  by (simp add: toggleFilter_def)

lemma toggleActive_set:
  "set (toggleActive fid xs) = (if fid \<in> set xs then set xs - {fid} else insert fid (set xs))"
  by (auto simp: toggleActive_def)

lemma toggleExclusive_set:
  "set (toggleExclusive fid xs) =
     (if fid \<in> set xs then set xs - {''sepia'', ''grayscale''}
      else insert fid (set xs - {''sepia'', ''grayscale''}))"
  by (auto simp: toggleExclusive_def Let_def)

lemma six_cases:
  assumes "x = a \<Longrightarrow> P" and "x = b \<Longrightarrow> P" and "x = c \<Longrightarrow> P"
    and "x = d \<Longrightarrow> P" and "x = e \<Longrightarrow> P" and "x = f \<Longrightarrow> P"
    and "x \<notin> {a, b, c, d, e, f} \<Longrightarrow> P"
  shows P
  using assms by blast

lemma toggleFilter_keeps_values:
  assumes "toggleValues (filters s)" and "highlightsAgree s"
  shows "toggleValues (filters (toggleFilter fid c s)) \<and> highlightsAgree (toggleFilter fid c s)"
proof (cases "isCameraStarted c")
  case False
  then show ?thesis using assms by (simp add: toggleFilter_disabled)
next
  case True
  show ?thesis
  proof (rule six_cases [of fid "''mirror''" _ "''grayscale''" "''sepia''" "''brightness''"
        "''contrast''" "''saturate''"])
    assume "fid = ''mirror''"
    then show ?thesis using assms True
      by (simp add: toggleFilter_mirror toggleValues_def highlightsAgree_def toggleActive_set)
  next
    assume "fid = ''grayscale''"
    then show ?thesis using assms True
      by (simp add: toggleFilter_grayscale toggleValues_def highlightsAgree_def
          toggleExclusive_set)
  next
    assume "fid = ''sepia''"
    then show ?thesis using assms True
      by (simp add: toggleFilter_sepia toggleValues_def highlightsAgree_def toggleExclusive_set)
  next
    assume "fid = ''brightness''"
    then show ?thesis using assms True
      by (simp add: toggleFilter_brightness toggleValues_def highlightsAgree_def
          toggleActive_set)
  next
    assume "fid = ''contrast''"
    then show ?thesis using assms True
      by (simp add: toggleFilter_contrast toggleValues_def highlightsAgree_def toggleActive_set)
  next
    assume "fid = ''saturate''"
    then show ?thesis using assms True
      by (simp add: toggleFilter_saturate toggleValues_def highlightsAgree_def toggleActive_set)
  next
    assume "fid \<notin> {''mirror'', ''grayscale'', ''sepia'', ''brightness'', ''contrast'',
      ''saturate''}"
    then show ?thesis using assms by (simp add: toggleFilter_other)
  qed
qed

lemma step_keeps_values:
  assumes "neutralDefaults cfg" and "toggleValues (filters s)" and "highlightsAgree s"
  shows "toggleValues (filters (step cfg e ev s)) \<and> highlightsAgree (step cfg e ev s)"
proof (cases ev)
  case (ClickFilter fid)
  then show ?thesis using assms(2,3) by (simp add: toggleFilter_keeps_values)
next
  case ClickResetFilters
  then show ?thesis using assms
    by (simp add: resetFilters_def neutralDefaults_def highlightsAgree_def)
next
  case (KeyDown key)
  then show ?thesis using assms(2,3)
    by (simp add: highlightsAgree_def handleKeyDown_def keyClosure_def goToLayoutScreen_def
        stopAutoSequence_def startCapture_def undoCapture_def resetCaptures_def
        toggleAutoMode_def Let_def)
next
  case CountdownEffect
  then show ?thesis using assms(2,3)
    by (simp add: highlightsAgree_def countdownEffectRun_def countdownEffect_def
        captureImage_def scheduleNextAutoCapture_def Let_def split: countdown_val.splits)
qed (use assms(2,3) in \<open>simp_all add: highlightsAgree_def undoCapture_def cycleTimer_def
      mainButton_def goToLayoutScreen_def stopAutoSequence_def startCapture_def
      toggleAutoMode_def resetCaptures_def tickTimeout_def nextAutoTimeout_def
      startCamera_def maxCaptureEffect_def keyboardEffect_def Let_def split: list.splits\<close>)

lemma run_keeps_values:
  "neutralDefaults cfg \<Longrightarrow> toggleValues (filters s) \<Longrightarrow> highlightsAgree s \<Longrightarrow>
   toggleValues (filters (run cfg evs s)) \<and> highlightsAgree (run cfg evs s)"
proof (induction evs arbitrary: s)
  case Nil
  then show ?case by simp
next
  case (Cons p evs)
  obtain e ev where p: "p = (e, ev)" by (cases p)
  have "toggleValues (filters (step cfg e ev s)) \<and> highlightsAgree (step cfg e ev s)"
    using Cons.prems by (rule step_keeps_values)
  then show ?case unfolding p run.simps using Cons.IH [OF Cons.prems(1)] by blast
qed

lemma reachable_values:
  assumes "neutralDefaults cfg"
  shows "toggleValues (filters (run cfg evs (initial cfg))) \<and>
         highlightsAgree (run cfg evs (initial cfg))"
proof -
  have "toggleValues (filters (initial cfg))" "highlightsAgree (initial cfg)"
    using assms by (simp_all add: neutralDefaults_def highlightsAgree_def initial_def)
  with assms show ?thesis by (rule run_keeps_values)
qed

lemma toggledTwice_mirror:
  assumes "isCameraStarted s"
  shows "restored s (toggledTwice ''mirror'' s)"
  using assms
  by (auto simp: restored_def toggledTwice_def toggleFilter_mirror toggleActive_set)

lemma toggledTwice_brightness:
  assumes "isCameraStarted s" and "toggleValues (filters s)"
  shows "restored s (toggledTwice ''brightness'' s)"
  using assms
  by (auto simp: restored_def toggledTwice_def toggleFilter_brightness toggleActive_set
      toggleValues_def)

lemma toggledTwice_contrast:
  assumes "isCameraStarted s" and "toggleValues (filters s)"
  shows "restored s (toggledTwice ''contrast'' s)"
  using assms
  by (auto simp: restored_def toggledTwice_def toggleFilter_contrast toggleActive_set
      toggleValues_def)

lemma toggledTwice_saturate:
  assumes "isCameraStarted s" and "toggleValues (filters s)"
  shows "restored s (toggledTwice ''saturate'' s)"
  using assms
  by (auto simp: restored_def toggledTwice_def toggleFilter_saturate toggleActive_set
      toggleValues_def)

lemma toggledTwice_grayscale:
  assumes "isCameraStarted s" and "toggleValues (filters s)" and "highlightsAgree s"
    and "sepia (filters s) = 0"
  shows "restored s (toggledTwice ''grayscale'' s)"
  using assms
  by (auto simp: restored_def toggledTwice_def toggleFilter_grayscale toggleExclusive_set
      toggleValues_def highlightsAgree_def)

lemma toggledTwice_sepia:
  assumes "isCameraStarted s" and "toggleValues (filters s)" and "highlightsAgree s"
    and "grayscale (filters s) = 0"
  shows "restored s (toggledTwice ''sepia'' s)"
  using assms
  by (auto simp: restored_def toggledTwice_def toggleFilter_sepia toggleExclusive_set
      toggleValues_def highlightsAgree_def)

lemma toggledTwice_clears_other:
  assumes "isCameraStarted s"
  shows "sepia (filters (toggledTwice ''grayscale'' s)) = 0 \<and>
         grayscale (filters (toggledTwice ''sepia'' s)) = 0"
  using assms by (simp add: toggledTwice_def toggleFilter_grayscale toggleFilter_sepia)

text \<open>
  With sepia switched on, two toggles of grayscale leave sepia at zero and no longer
  highlighted: the first toggle switches sepia off and the second does not bring it back.
\<close>

theorem toggle_grayscale_twice_counterexample:
  "isCameraStarted sepiaOn \<and> sepia (filters sepiaOn) = 100 \<and>
   ''sepia'' \<in> set (activeFilters sepiaOn) \<and>
   sepia (filters (toggleFilterSeq [''grayscale'', ''grayscale''] sepiaOn)) = 0 \<and>
   ''sepia'' \<notin> set (activeFilters (toggleFilterSeq [''grayscale'', ''grayscale''] sepiaOn))"
  by (simp add: sepiaOn_eq example_defs derived_defs handler_defs)

text \<open>
  Claim C9, amended. Let the defaults be toggle values with grayscale and sepia off.
  In every state reached from the first render in which the camera is started, two
  toggles of mirror, brightness, contrast or saturate give back the filter settings,
  the mirror flag and the set of highlighted identifiers; two toggles of grayscale do
  so when sepia is zero beforehand, and two toggles of sepia when grayscale is zero
  beforehand. In any case two toggles of grayscale leave sepia at zero, and two toggles
  of sepia leave grayscale at zero.
\<close>

theorem toggle_twice_restores:
  assumes "neutralDefaults cfg" and "s = run cfg evs (initial cfg)" and "isCameraStarted s"
  shows "restored s (toggledTwice ''mirror'' s) \<and>
         restored s (toggledTwice ''brightness'' s) \<and>
         restored s (toggledTwice ''contrast'' s) \<and>
         restored s (toggledTwice ''saturate'' s) \<and>
         (sepia (filters s) = 0 \<longrightarrow> restored s (toggledTwice ''grayscale'' s)) \<and>
         (grayscale (filters s) = 0 \<longrightarrow> restored s (toggledTwice ''sepia'' s)) \<and>
         sepia (filters (toggledTwice ''grayscale'' s)) = 0 \<and>
         grayscale (filters (toggledTwice ''sepia'' s)) = 0"
proof -
  have v: "toggleValues (filters s)" and h: "highlightsAgree s"
    using reachable_values [OF assms(1), of evs] assms(2) by simp_all
  note c = assms(3)
  have "restored s (toggledTwice ''mirror'' s)"
    using c by (rule toggledTwice_mirror)
  moreover have "restored s (toggledTwice ''brightness'' s)"
    using c v by (rule toggledTwice_brightness)
  moreover have "restored s (toggledTwice ''contrast'' s)"
    using c v by (rule toggledTwice_contrast)
  moreover have "restored s (toggledTwice ''saturate'' s)"
    using c v by (rule toggledTwice_saturate)
  moreover have "sepia (filters s) = 0 \<longrightarrow> restored s (toggledTwice ''grayscale'' s)"
    using toggledTwice_grayscale [OF c v h] by (rule impI)
  moreover have "grayscale (filters s) = 0 \<longrightarrow> restored s (toggledTwice ''sepia'' s)"
    using toggledTwice_sepia [OF c v h] by (rule impI)
  moreover have "sepia (filters (toggledTwice ''grayscale'' s)) = 0"
    and "grayscale (filters (toggledTwice ''sepia'' s)) = 0"
    using toggledTwice_clears_other [OF c] by simp_all
  ultimately show ?thesis by (intro conjI)
qed

theorem toggle_twice_restores_witness:
  "neutralDefaults exampleCfg \<and> sepiaOn = run exampleCfg sepiaClicks (initial exampleCfg) \<and>
   isCameraStarted sepiaOn \<and> grayscale (filters sepiaOn) = 0 \<and>
   restored sepiaOn (toggledTwice ''brightness'' sepiaOn) \<and>
   restored sepiaOn (toggledTwice ''sepia'' sepiaOn) \<and>
   sepia (filters (toggledTwice ''grayscale'' sepiaOn)) = 0"
proof -
  have d: "neutralDefaults exampleCfg"
    by (simp add: neutralDefaults_def toggleValues_def exampleCfg_def)
  have r: "sepiaOn = run exampleCfg sepiaClicks (initial exampleCfg)"
    by (rule sepiaOn_def)
  have c: "isCameraStarted sepiaOn"
    by (simp add: sepiaOn_eq initial_def)
  have g: "grayscale (filters sepiaOn) = 0"
    by (simp add: sepiaOn_eq initial_def exampleCfg_def)
  have "restored sepiaOn (toggledTwice ''brightness'' sepiaOn) \<and>
        restored sepiaOn (toggledTwice ''sepia'' sepiaOn) \<and>
        sepia (filters (toggledTwice ''grayscale'' sepiaOn)) = 0"
    using toggle_twice_restores [OF d r c] g by simp
  with d r c g show ?thesis by (intro conjI) simp_all
qed

end
